theory Spec2Isabelle
  imports Main
begin

section \<open>GitHubRepoManager: the command-line entry point and its test\<close>

text \<open>
  The repository consists of two files.  \<^verbatim>\<open>githubrepomanager.py\<close> defines
  \<^verbatim>\<open>parse_args\<close>, which builds an \<^verbatim>\<open>argparse.ArgumentParser\<close> with the single
  option \<^verbatim>\<open>--debug\<close> (\<^verbatim>\<open>action="store_true"\<close>) and parses \<^verbatim>\<open>sys.argv[1:]\<close>, and
  \<^verbatim>\<open>main\<close>, which calls \<^verbatim>\<open>parse_args\<close>, prints one line and returns 0.
  \<^verbatim>\<open>tests/test_main.py\<close> defines one \<^verbatim>\<open>unittest\<close> test case.

  The program is embedded as functions from the argument vector to the list of
  things written and the way the call ends.  The standard library's parser is part
  of what \<^verbatim>\<open>parse_args\<close> does, so it is embedded as well, specialised to the
  parser that \<^verbatim>\<open>parse_args\<close> configures: the options \<^verbatim>\<open>-h\<close>, \<^verbatim>\<open>--help\<close> (added by
  \<^verbatim>\<open>ArgumentParser\<close> itself) and \<^verbatim>\<open>--debug\<close>, no positional arguments, prefix
  character \<^verbatim>\<open>-\<close>, abbreviations allowed.  The embedding follows
  \<^verbatim>\<open>argparse.py\<close> of CPython 3.11.  Strings are byte strings.
\<close>

subsection \<open>Data\<close>

text \<open>The two actions registered with the parser, both with \<^verbatim>\<open>nargs = 0\<close>.\<close>

datatype action = HelpAction | StoreTrueAction

text \<open>\<^verbatim>\<open>parser._option_string_actions\<close>, in insertion order.\<close>

definition option_string_actions :: "(string \<times> action) list" where
  "option_string_actions =
     [(''-h'', HelpAction), (''--help'', HelpAction), (''--debug'', StoreTrueAction)]"

text \<open>
  The namespace \<^verbatim>\<open>parse_args\<close> returns: its only attribute is \<^verbatim>\<open>debug\<close>
  (the help action has \<^verbatim>\<open>dest = SUPPRESS\<close>).
\<close>

record namespace =
  debug :: bool

text \<open>
  The messages with which the parser calls \<^verbatim>\<open>self.error\<close>, kept as values:
  the option that was ambiguous and the option strings it could match; the action
  and the explicit argument it could not take; the arguments left over.
\<close>

datatype parse_error =
    AmbiguousOption string "string list"
  | UnexpectedOptionString string
  | IgnoredExplicitArgument action string
  | UnrecognizedArguments "string list"

text \<open>What ends \<^verbatim>\<open>_parse_known_args\<close> early: an error, or the help action's exit.\<close>

datatype interrupt = ArgumentError parse_error | HelpExit

text \<open>
  An option tuple \<^verbatim>\<open>(action, option_string, sep, explicit_arg)\<close>;
  \<^verbatim>\<open>None\<close> is \<open>None\<close>.
\<close>

type_synonym option_tuple = "action option \<times> string \<times> string option \<times> string option"

text \<open>
  One position of \<^verbatim>\<open>arg_strings_pattern\<close>: \<^verbatim>\<open>'A'\<close> (\<open>Arg\<close>), \<^verbatim>\<open>'-'\<close> (\<open>Dash\<close>), or
  \<^verbatim>\<open>'O'\<close> (\<open>Opt\<close>) together with the entry of \<^verbatim>\<open>option_string_indices\<close> at that
  index.
\<close>

datatype pattern = Arg | Dash | Opt option_tuple

text \<open>
  What a run writes: a line printed by \<^verbatim>\<open>print\<close>, the help text on standard
  output (\<^verbatim>\<open>parser.print_help()\<close>), and the usage line and the error line that
  \<^verbatim>\<open>parser.error\<close> writes to standard error.  The texts that \<^verbatim>\<open>argparse\<close>
  formats (they contain the program's name) are not spelled out.
\<close>

datatype event =
    Print string
  | PrintHelp
  | StderrUsage
  | StderrError parse_error

text \<open>
  A call writes events and then either raises \<^verbatim>\<open>SystemExit(status)\<close>
  (\<open>Inl status\<close>) or returns a value (\<open>Inr\<close>).
\<close>

type_synonym 'a call = "event list \<times> (int + 'a)"

subsection \<open>Recognising one argument string\<close>

text \<open>Python truth value of \<^verbatim>\<open>sep\<close>: \<^verbatim>\<open>None\<close> and \<^verbatim>\<open>''\<close> are false.\<close>

definition truthy :: "string option \<Rightarrow> bool" where
  "truthy sep = (case sep of None \<Rightarrow> False | Some s \<Rightarrow> s \<noteq> [])"

text \<open>\<^verbatim>\<open>s.startswith(p)\<close>.\<close>

definition startswith :: "string \<Rightarrow> string \<Rightarrow> bool" where
  "startswith s p = (take (length p) s = p)"

text \<open>
  \<^verbatim>\<open>s.partition('=')\<close>: the part before the first \<^verbatim>\<open>=\<close>, the separator found
  (\<^verbatim>\<open>''\<close> when there is none) and the part after it.
\<close>

definition partition_eq :: "string \<Rightarrow> string \<times> string \<times> string" where
  "partition_eq s =
     (if CHR ''='' \<in> set s
      then (takeWhile (\<lambda>c. c \<noteq> CHR ''='') s, ''='', tl (dropWhile (\<lambda>c. c \<noteq> CHR ''='') s))
      else (s, [], []))"

text \<open>
  \<^verbatim>\<open>_negative_number_matcher\<close>, the regular expression
  \<^verbatim>\<open>^-\d+$|^-\d*\.\d+$\<close>, on byte strings: \<^verbatim>\<open>$\<close> also matches before a final
  newline.
\<close>

definition is_digit :: "char \<Rightarrow> bool" where
  "is_digit c = (c \<in> set ''0123456789'')"

definition negative_number_matcher :: "string \<Rightarrow> bool" where
  "negative_number_matcher s =
     (case s of
        [] \<Rightarrow> False
      | c # r \<Rightarrow>
          c = CHR ''-'' \<and>
          (let b = (if r \<noteq> [] \<and> last r = CHR 0x0A then butlast r else r);
               d = takeWhile is_digit b;
               e = dropWhile is_digit b
           in (d \<noteq> [] \<and> e = []) \<or>
              (case e of
                 [] \<Rightarrow> False
               | p # f \<Rightarrow> p = CHR ''.'' \<and> f \<noteq> [] \<and> list_all is_digit f)))"

text \<open>
  \<^verbatim>\<open>_get_option_tuples\<close>.  It is called on strings of at least two characters
  that start with \<^verbatim>\<open>-\<close>; on a shorter string Python raises \<^verbatim>\<open>IndexError\<close>, which
  the last case stands for.
\<close>

definition get_option_tuples :: "string \<Rightarrow> parse_error + option_tuple list" where
  "get_option_tuples option_string =
     (case option_string of
        c0 # c1 # _ \<Rightarrow>
          if c0 = CHR ''-'' \<and> c1 = CHR ''-'' then
            (let (option_prefix, sep, explicit_arg) = partition_eq option_string;
                 sep' = (if sep = [] then None else Some sep);
                 explicit_arg' = (if sep = [] then None else Some explicit_arg)
             in Inr (map (\<lambda>(os, a). (Some a, os, sep', explicit_arg'))
                      (filter (\<lambda>(os, a). startswith os option_prefix) option_string_actions)))
          else if c0 = CHR ''-'' \<and> c1 \<noteq> CHR ''-'' then
            Inr (concat (map (\<lambda>(os, a).
                   if os = take 2 option_string
                   then [(Some a, os, Some [], Some (drop 2 option_string))]
                   else if startswith os option_string
                   then [(Some a, os, None, None)]
                   else []) option_string_actions))
          else Inl (UnexpectedOptionString option_string)
      | _ \<Rightarrow> Inl (UnexpectedOptionString option_string))"

text \<open>
  \<^verbatim>\<open>_parse_optional\<close>: \<open>Inr None\<close> is Python's \<^verbatim>\<open>None\<close> (a positional),
  \<open>Inl\<close> a call of \<^verbatim>\<open>self.error\<close>.
\<close>

definition parse_optional :: "string \<Rightarrow> parse_error + option_tuple option" where
  "parse_optional arg_string =
     (if arg_string = [] then Inr None
      else if hd arg_string \<noteq> CHR ''-'' then Inr None
      else case map_of option_string_actions arg_string of
        Some a \<Rightarrow> Inr (Some (Some a, arg_string, None, None))
      | None \<Rightarrow>
          if length arg_string = 1 then Inr None
          else
            (let (option_string, sep, explicit_arg) = partition_eq arg_string
             in case (if sep \<noteq> [] then map_of option_string_actions option_string else None) of
               Some a \<Rightarrow> Inr (Some (Some a, option_string, Some sep, Some explicit_arg))
             | None \<Rightarrow>
                 (case get_option_tuples arg_string of
                    Inl e \<Rightarrow> Inl e
                  | Inr option_tuples \<Rightarrow>
                      if length option_tuples > 1
                      then Inl (AmbiguousOption arg_string (map (\<lambda>t. fst (snd t)) option_tuples))
                      else if length option_tuples = 1 then Inr (Some (hd option_tuples))
                      else if negative_number_matcher arg_string then Inr None
                      else if CHR '' '' \<in> set arg_string then Inr None
                      else Inr (Some (None, arg_string, None, None)))))"

subsection \<open>The parsing loop\<close>

text \<open>
  The first loop of \<^verbatim>\<open>_parse_known_args\<close>: the pattern of the argument strings.
  After \<^verbatim>\<open>--\<close> every string is an argument.  An error of \<^verbatim>\<open>_parse_optional\<close>
  ends the parse at the first string that has one.
\<close>

fun arg_strings_pattern :: "string list \<Rightarrow> parse_error + pattern list" where
  "arg_strings_pattern [] = Inr []"
| "arg_strings_pattern (arg_string # rest) =
     (if arg_string = ''--'' then Inr (Dash # map (\<lambda>_. Arg) rest)
      else case parse_optional arg_string of
        Inl e \<Rightarrow> Inl e
      | Inr option_tuple \<Rightarrow>
          (case arg_strings_pattern rest of
             Inl e \<Rightarrow> Inl e
           | Inr parts \<Rightarrow>
               Inr ((case option_tuple of None \<Rightarrow> Arg | Some t \<Rightarrow> Opt t) # parts)))"

text \<open>
  \<^verbatim>\<open>take_action\<close> over the collected \<^verbatim>\<open>action_tuples\<close>: the store-true action
  sets \<^verbatim>\<open>namespace.debug = True\<close>; the help action prints the help and exits, so
  the actions after it are not taken.
\<close>

fun take_actions :: "action list \<Rightarrow> namespace \<Rightarrow> interrupt + namespace" where
  "take_actions [] ns = Inr ns"
| "take_actions (HelpAction # _) ns = Inl HelpExit"
| "take_actions (StoreTrueAction # rest) ns = take_actions rest (ns\<lparr>debug := True\<rparr>)"

text \<open>
  The \<^verbatim>\<open>while True\<close> loop of \<^verbatim>\<open>consume_optional\<close> for an option tuple whose action
  is not \<^verbatim>\<open>None\<close>.  Both actions take no argument, so \<^verbatim>\<open>arg_count\<close> is 0.  The
  result is \<^verbatim>\<open>action_tuples\<close> and what the loop appends to \<^verbatim>\<open>extras\<close>.
  \<^verbatim>\<open>arg_string\<close> is not needed: \<^verbatim>\<open>stop\<close> is always \<^verbatim>\<open>start_index + 1\<close>.
\<close>

fun single_dash_loop ::
  "action \<Rightarrow> string \<Rightarrow> string option \<Rightarrow> string option \<Rightarrow> action list
     \<Rightarrow> parse_error + action list \<times> string list" where
  "single_dash_loop action option_string sep None action_tuples =
     Inr (action_tuples @ [action], [])"
| "single_dash_loop action option_string sep (Some []) action_tuples =
     Inl (IgnoredExplicitArgument action [])"
| "single_dash_loop action option_string sep (Some (c # rest)) action_tuples =
     (if option_string ! 1 \<noteq> CHR ''-'' then
        (if truthy sep \<or> c = CHR ''-''
         then Inl (IgnoredExplicitArgument action (c # rest))
         else
           (case map_of option_string_actions [hd option_string, c] of
              Some action' \<Rightarrow>
                (case rest of
                   [] \<Rightarrow>
                     single_dash_loop action' [hd option_string, c] None None
                       (action_tuples @ [action])
                 | r # rest' \<Rightarrow>
                     if r = CHR ''=''
                     then single_dash_loop action' [hd option_string, c] (Some ''='') (Some rest')
                            (action_tuples @ [action])
                     else single_dash_loop action' [hd option_string, c] (Some []) (Some rest)
                            (action_tuples @ [action]))
            | None \<Rightarrow> Inr (action_tuples @ [action], [hd option_string # c # rest])))
      else Inl (IgnoredExplicitArgument action (c # rest)))"

text \<open>
  \<^verbatim>\<open>consume_optional\<close> at an index whose string is \<^verbatim>\<open>arg_string\<close>: an unknown
  option goes to \<^verbatim>\<open>extras\<close>; otherwise the collected actions are taken in order.
\<close>

definition consume_optional ::
  "string \<Rightarrow> option_tuple \<Rightarrow> namespace \<Rightarrow> string list
     \<Rightarrow> interrupt + namespace \<times> string list" where
  "consume_optional arg_string option_tuple ns extras =
     (case option_tuple of
        (None, _, _, _) \<Rightarrow> Inr (ns, extras @ [arg_string])
      | (Some action, option_string, sep, explicit_arg) \<Rightarrow>
          (case single_dash_loop action option_string sep explicit_arg [] of
             Inl e \<Rightarrow> Inl (ArgumentError e)
           | Inr (action_tuples, added) \<Rightarrow>
               (case take_actions action_tuples ns of
                  Inl i \<Rightarrow> Inl i
                | Inr ns' \<Rightarrow> Inr (ns', extras @ added))))"

text \<open>
  The second loop of \<^verbatim>\<open>_parse_known_args\<close>, over the argument strings paired
  with their pattern.  The parser has no positional argument, so
  \<^verbatim>\<open>consume_positionals\<close> consumes nothing and every string that is not an option
  is appended to \<^verbatim>\<open>extras\<close>, in order; \<^verbatim>\<open>consume_optional\<close> always advances by
  one string.  The index arithmetic of the source therefore visits the strings
  one by one, from left to right.
\<close>

fun consume :: "(string \<times> pattern) list \<Rightarrow> namespace \<Rightarrow> string list
     \<Rightarrow> interrupt + namespace \<times> string list" where
  "consume [] ns extras = Inr (ns, extras)"
| "consume ((arg_string, Arg) # rest) ns extras = consume rest ns (extras @ [arg_string])"
| "consume ((arg_string, Dash) # rest) ns extras = consume rest ns (extras @ [arg_string])"
| "consume ((arg_string, Opt option_tuple) # rest) ns extras =
     (case consume_optional arg_string option_tuple ns extras of
        Inl i \<Rightarrow> Inl i
      | Inr (ns', extras') \<Rightarrow> consume rest ns' extras')"

text \<open>\<^verbatim>\<open>_parse_known_args\<close> on the namespace of defaults.\<close>

definition parse_known_args :: "string list \<Rightarrow> interrupt + namespace \<times> string list" where
  "parse_known_args arg_strings =
     (case arg_strings_pattern arg_strings of
        Inl e \<Rightarrow> Inl (ArgumentError e)
      | Inr parts \<Rightarrow> consume (zip arg_strings parts) \<lparr>debug = False\<rparr> [])"

text \<open>\<^verbatim>\<open>parser.error(message)\<close>: usage and message on standard error, exit status 2.\<close>

definition error :: "parse_error \<Rightarrow> 'a call" where
  "error e = ([StderrUsage, StderrError e], Inl 2)"

subsection \<open>The program\<close>

text \<open>
  \<^verbatim>\<open>parse_args()\<close> of the program, as a function of \<^verbatim>\<open>sys.argv[1:]\<close>:
  \<^verbatim>\<open>parser.parse_args()\<close> reports what is left in \<^verbatim>\<open>extras\<close> as unrecognized.
\<close>

definition parse_args :: "string list \<Rightarrow> namespace call" where
  "parse_args argv =
     (case parse_known_args argv of
        Inl HelpExit \<Rightarrow> ([PrintHelp], Inl 0)
      | Inl (ArgumentError e) \<Rightarrow> error e
      | Inr (args, extras) \<Rightarrow>
          if extras \<noteq> [] then error (UnrecognizedArguments extras) else ([], Inr args))"

text \<open>
  \<^verbatim>\<open>main()\<close>: an exit raised inside \<^verbatim>\<open>parse_args\<close> passes through; otherwise
  the line is printed and 0 returned.  \<^verbatim>\<open>args\<close> is bound and not used.
\<close>

definition main :: "string list \<Rightarrow> int call" where
  "main argv =
     (case parse_args argv of
        (out, Inl status) \<Rightarrow> (out, Inl status)
      | (out, Inr args) \<Rightarrow> (out @ [Print ''GitHubRepoManager Python implementation''], Inr 0))"

text \<open>
  The script, \<^verbatim>\<open>sys.exit(main())\<close>: what was written and the exit status of the
  process.
\<close>

definition script :: "string list \<Rightarrow> event list \<times> int" where
  "script argv = (case main argv of (out, Inl status) \<Rightarrow> (out, status) | (out, Inr r) \<Rightarrow> (out, r))"

text \<open>The part of the output that goes to standard output.\<close>

fun on_stdout :: "event \<Rightarrow> bool" where
  "on_stdout (Print _) = True"
| "on_stdout PrintHelp = True"
| "on_stdout StderrUsage = False"
| "on_stdout (StderrError _) = False"

definition stdout_of :: "event list \<Rightarrow> event list" where
  "stdout_of out = filter on_stdout out"

text \<open>
  What the caller of the process observes of a run apart from standard error:
  standard output and the exit status.
\<close>

definition observable :: "string list \<Rightarrow> event list \<times> int" where
  "observable argv = (stdout_of (fst (script argv)), snd (script argv))"

subsection \<open>The test module\<close>

text \<open>
  \<^verbatim>\<open>TestCase.assertTrue(expr)\<close> raises the failure exception when \<^verbatim>\<open>expr\<close> is
  false.  \<^verbatim>\<open>TestMain\<close> has the single test method \<^verbatim>\<open>test_placeholder\<close>, whose body
  is \<^verbatim>\<open>self.assertTrue(True)\<close>; it reads nothing of the test case instance.
\<close>

datatype assertion_error = AssertionError string

definition assertTrue :: "bool \<Rightarrow> assertion_error + unit" where
  "assertTrue expr = (if \<not> expr then Inl (AssertionError ''False is not true'') else Inr ())"

definition test_placeholder :: "'self \<Rightarrow> assertion_error + unit" where
  "test_placeholder self = assertTrue True"

text \<open>The test methods of the module, by name, as the loader collects them.\<close>

definition TestMain :: "(string \<times> ('self \<Rightarrow> assertion_error + unit)) list" where
  "TestMain = [(''test_placeholder'', test_placeholder)]"

datatype verdict = Passed | Failed assertion_error

definition run_tests ::
  "'self \<Rightarrow> (string \<times> ('self \<Rightarrow> assertion_error + unit)) list \<Rightarrow> (string \<times> verdict) list" where
  "run_tests self tests =
     map (\<lambda>(name, test). (name, case test self of Inl e \<Rightarrow> Failed e | Inr _ \<Rightarrow> Passed)) tests"

section \<open>Properties\<close>

subsection \<open>The test\<close>

text \<open>
  Claim C9.  The test suite is the single test \<^verbatim>\<open>test_placeholder\<close>; its body asserts
  the constant \<^verbatim>\<open>True\<close>, so it passes whatever the test case instance it runs on.
\<close>

theorem placeholder_test_passes:
  "run_tests self TestMain = [(''test_placeholder'', Passed)]
   \<and> test_placeholder self = assertTrue True"
  by (simp add: run_tests_def TestMain_def test_placeholder_def assertTrue_def)

end
